theory Spec2Isabelle
  imports Complex_Main "HOL-Library.Word"
begin

section \<open>Exceptions\<close>

text \<open>
  \<^verbatim>\<open>operation.js\<close> raises two classes of exception, \<^verbatim>\<open>Error\<close> and \<^verbatim>\<open>TypeError\<close>, each with
  a message. A function that can throw returns \<open>error + 'a\<close>, with \<open>Inl\<close> for the throw.
  The messages of \<^verbatim>\<open>operation.js\<close> are those of the source; an exception that a library or
  the language raises has its class and a message that names its cause.
\<close>

datatype error = Error string | TypeError string

section \<open>Decimal digits\<close>

definition is_digit :: "char \<Rightarrow> bool" where
  "is_digit c = (c \<in> set ''0123456789'')"

definition digit_val :: "char \<Rightarrow> nat" where
  "digit_val c = of_char c - 48"

definition digit_char :: "nat \<Rightarrow> char" where
  "digit_char d = ''0123456789'' ! d"

text \<open>The number a string of digits denotes, and the digits of a number (no leading zero).\<close>

definition nat_of_str :: "string \<Rightarrow> nat" where
  "nat_of_str s = foldl (\<lambda>a c. 10 * a + digit_val c) 0 s"

function str_of_nat :: "nat \<Rightarrow> string" where
  "str_of_nat n =
     (if n < 10 then [digit_char n] else str_of_nat (n div 10) @ [digit_char (n mod 10)])"
  by pat_completeness auto
termination
  by (relation "measure id") auto

definition str_of_int :: "int \<Rightarrow> string" where
  "str_of_int i = (if i < 0 then CHR ''-'' # str_of_nat (nat (- i)) else str_of_nat (nat i))"

section \<open>The decimal library: bignumber.js\<close>

text \<open>
  \<^verbatim>\<open>operation.js\<close> does all its arithmetic on amounts and prices with the arbitrary-precision
  decimals of the library bignumber.js, in its default configuration (20 decimal places and
  rounding half up for division, exceptions on, exponential notation for exponents at most
  \<open>-7\<close> or at least \<open>21\<close>, exponents between \<open>-10\<^sup>9\<close> and \<open>10\<^sup>9\<close>).
  A BigNumber is not a number, an infinity with a sign, or a finite decimal with a sign:
  \<open>BFinite neg m k\<close> is \<open>m \<times> 10\<^sup>k\<close>, negated when \<open>neg\<close> holds. Like the library the model
  keeps the sign of a zero, and keeps every finite value in one form: \<open>m\<close> is not a multiple
  of ten, and \<open>k = 0\<close> when \<open>m = 0\<close>.
\<close>

datatype bignumber = BNaN | BInfinity bool | BFinite bool nat int

function strip_zeros :: "nat \<Rightarrow> int \<Rightarrow> nat \<times> int" where
  "strip_zeros m k =
     (if m \<noteq> 0 \<and> m mod 10 = 0 then strip_zeros (m div 10) (k + 1) else (m, k))"
  by pat_completeness auto
termination
  by (relation "measure fst") auto

definition MAX_EXP :: int where
  "MAX_EXP = 1000000000"

text \<open>
  The library's exponent \<open>e\<close> of a finite nonzero value is the power of ten of its leading
  digit. A result whose exponent is above \<open>MAX_EXP\<close> becomes an infinity, one whose exponent
  is below \<open>-MAX_EXP\<close> becomes zero.
\<close>

definition lead_exp :: "nat \<Rightarrow> int \<Rightarrow> int" where
  "lead_exp m k = k + int (length (str_of_nat m)) - 1"

definition BN_make :: "bool \<Rightarrow> nat \<Rightarrow> int \<Rightarrow> bignumber" where
  "BN_make neg m k =
     (if m = 0 then BFinite neg 0 0
      else (case strip_zeros m k of (m', k') \<Rightarrow>
              if lead_exp m' k' > MAX_EXP then BInfinity neg
              else if lead_exp m' k' < - MAX_EXP then BFinite neg 0 0
              else BFinite neg m' k'))"

subsection \<open>Reading a string: \<^verbatim>\<open>new BigNumber(string)\<close>\<close>

text \<open>
  A decimal literal matches \<^verbatim>\<open>/^-?(\d+(\.\d*)?|\.\d+)(e[+-]?\d+)?$/i\<close>: an optional minus sign,
  digits with an optional point, and an optional exponent.
\<close>

fun parse_exponent :: "string \<Rightarrow> int option" where
  "parse_exponent [] = Some 0"
| "parse_exponent (c # r) =
     (if c = CHR ''e'' \<or> c = CHR ''E'' then
        (case r of
           [] \<Rightarrow> None
         | s # ds \<Rightarrow>
             if s = CHR ''-'' then
               (if ds \<noteq> [] \<and> list_all is_digit ds then Some (- int (nat_of_str ds)) else None)
             else if s = CHR ''+'' then
               (if ds \<noteq> [] \<and> list_all is_digit ds then Some (int (nat_of_str ds)) else None)
             else if list_all is_digit r then Some (int (nat_of_str r))
             else None)
      else None)"

definition split_sign :: "string \<Rightarrow> bool \<times> string" where
  "split_sign str =
     (case str of [] \<Rightarrow> (False, []) | c # r \<Rightarrow> if c = CHR ''-'' then (True, r) else (False, str))"

definition split_fraction :: "string \<Rightarrow> string \<times> string" where
  "split_fraction r =
     (case r of
        [] \<Rightarrow> ([], [])
      | c # t \<Rightarrow> if c = CHR ''.'' then (takeWhile is_digit t, dropWhile is_digit t) else ([], r))"

text \<open>The parts of a decimal literal: sign, integer digits, fraction digits, exponent.\<close>

definition parse_decimal :: "string \<Rightarrow> (bool \<times> string \<times> string \<times> int) option" where
  "parse_decimal str =
     (case split_sign str of (neg, body) \<Rightarrow>
      case split_fraction (dropWhile is_digit body) of (fp, rest) \<Rightarrow>
        if takeWhile is_digit body = [] \<and> fp = [] then None
        else (case parse_exponent rest of
                None \<Rightarrow> None
              | Some ex \<Rightarrow> Some (neg, takeWhile is_digit body, fp, ex)))"

text \<open>
  The constructor on a string. It reads a decimal literal, and the literals of the
  infinities and of not-a-number; on any other string it throws. The library rewrites
  some further strings before it reads them (it drops white space around a literal and a
  leading plus sign, and reads the prefixes \<^verbatim>\<open>0x\<close>, \<^verbatim>\<open>0o\<close> and \<^verbatim>\<open>0b\<close> in their bases): this
  model leaves these out and holds for the strings that the library reads as they are.
\<close>

definition BigNumber_string :: "string \<Rightarrow> error + bignumber" where
  "BigNumber_string str =
     (case parse_decimal str of
        Some (neg, ip, fp, ex) \<Rightarrow> Inr (BN_make neg (nat_of_str (ip @ fp)) (ex - int (length fp)))
      | None \<Rightarrow>
          if str = ''Infinity'' then Inr (BInfinity False)
          else if str = ''-Infinity'' then Inr (BInfinity True)
          else if str = ''NaN'' \<or> str = ''-NaN'' then Inr BNaN
          else Inl (Error ''new BigNumber() not a number''))"

subsection \<open>Predicates and arithmetic\<close>

fun isZero :: "bignumber \<Rightarrow> bool" where
  "isZero (BFinite neg m k) = (m = 0)"
| "isZero _ = False"

fun isNegative :: "bignumber \<Rightarrow> bool" where
  "isNegative (BFinite neg m k) = neg"
| "isNegative (BInfinity neg) = neg"
| "isNegative BNaN = False"

fun isFinite :: "bignumber \<Rightarrow> bool" where
  "isFinite (BFinite neg m k) = True"
| "isFinite _ = False"

fun isNaN :: "bignumber \<Rightarrow> bool" where
  "isNaN BNaN = True"
| "isNaN _ = False"

text \<open>\<^verbatim>\<open>decimalPlaces()\<close> is \<^verbatim>\<open>null\<close> on an infinity and on not-a-number.\<close>

fun decimalPlaces :: "bignumber \<Rightarrow> nat option" where
  "decimalPlaces (BFinite neg m k) = Some (nat (- k))"
| "decimalPlaces _ = None"

fun times_bn :: "bignumber \<Rightarrow> bignumber \<Rightarrow> bignumber" where
  "times_bn BNaN y = BNaN"
| "times_bn x BNaN = BNaN"
| "times_bn (BInfinity a) (BInfinity b) = BInfinity (a \<noteq> b)"
| "times_bn (BInfinity a) (BFinite b n l) = (if n = 0 then BNaN else BInfinity (a \<noteq> b))"
| "times_bn (BFinite a m k) (BInfinity b) = (if m = 0 then BNaN else BInfinity (a \<noteq> b))"
| "times_bn (BFinite a m k) (BFinite b n l) = BN_make (a \<noteq> b) (m * n) (k + l)"

text \<open>
  Comparison: \<^verbatim>\<open>null\<close> when either side is not a number, else \<open>-1\<close>, \<open>0\<close> or \<open>1\<close>. Two finite
  values are compared as integers after scaling both to the smaller power of ten.
\<close>

definition scaled_int :: "bool \<Rightarrow> nat \<Rightarrow> int \<Rightarrow> int \<Rightarrow> int" where
  "scaled_int neg m k j = (if neg then - 1 else 1) * int m * 10 ^ nat (k - j)"

definition order_int :: "int \<Rightarrow> int \<Rightarrow> int" where
  "order_int x y = (if x < y then - 1 else if x = y then 0 else 1)"

fun compare_bn :: "bignumber \<Rightarrow> bignumber \<Rightarrow> int option" where
  "compare_bn BNaN y = None"
| "compare_bn x BNaN = None"
| "compare_bn (BInfinity a) (BInfinity b) = Some (if a = b then 0 else if a then - 1 else 1)"
| "compare_bn (BInfinity a) (BFinite b n l) = Some (if a then - 1 else 1)"
| "compare_bn (BFinite a m k) (BInfinity b) = Some (if b then 1 else - 1)"
| "compare_bn (BFinite a m k) (BFinite b n l) =
     Some (order_int (scaled_int a m k (min k l)) (scaled_int b n l (min k l)))"

definition greaterThan_bn :: "bignumber \<Rightarrow> bignumber \<Rightarrow> bool" where
  "greaterThan_bn x y = (case compare_bn x y of None \<Rightarrow> False | Some c \<Rightarrow> 0 < c)"

text \<open>
  Division rounds the quotient to \<open>DECIMAL_PLACES\<close> places, half away from zero.
\<close>

definition DECIMAL_PLACES :: nat where
  "DECIMAL_PLACES = 20"

definition round_div :: "nat \<Rightarrow> nat \<Rightarrow> nat" where
  "round_div a b = (2 * a + b) div (2 * b)"

fun div_bn :: "bignumber \<Rightarrow> bignumber \<Rightarrow> bignumber" where
  "div_bn BNaN y = BNaN"
| "div_bn x BNaN = BNaN"
| "div_bn (BInfinity a) (BInfinity b) = BNaN"
| "div_bn (BInfinity a) (BFinite b n l) = BInfinity (a \<noteq> b)"
| "div_bn (BFinite a m k) (BInfinity b) = BFinite (a \<noteq> b) 0 0"
| "div_bn (BFinite a m k) (BFinite b n l) =
     (if n = 0 then (if m = 0 then BNaN else BInfinity (a \<noteq> b))
      else if m = 0 then BFinite (a \<noteq> b) 0 0
      else if 0 \<le> k - l + int DECIMAL_PLACES
        then BN_make (a \<noteq> b) (round_div (m * 10 ^ nat (k - l + int DECIMAL_PLACES)) n)
               (- int DECIMAL_PLACES)
        else BN_make (a \<noteq> b) (round_div m (n * 10 ^ nat (- (k - l + int DECIMAL_PLACES))))
               (- int DECIMAL_PLACES))"

subsection \<open>Printing: \<^verbatim>\<open>toString()\<close>\<close>

definition TO_EXP_NEG :: int where
  "TO_EXP_NEG = - 7"

definition TO_EXP_POS :: int where
  "TO_EXP_POS = 21"

definition toExponential :: "string \<Rightarrow> int \<Rightarrow> string" where
  "toExponential str e =
     (if 1 < length str then hd str # CHR ''.'' # tl str else str)
       @ (if e < 0 then ''e'' else ''e+'') @ str_of_int e"

definition toFixedPoint :: "string \<Rightarrow> int \<Rightarrow> string" where
  "toFixedPoint str e =
     (if e < 0 then ''0.'' @ replicate (nat (- e - 1)) CHR ''0'' @ str
      else if int (length str) < e + 1 then str @ replicate (nat (e + 1) - length str) CHR ''0''
      else if e + 1 < int (length str)
        then take (nat (e + 1)) str @ CHR ''.'' # drop (nat (e + 1)) str
      else str)"

fun toString :: "bignumber \<Rightarrow> string" where
  "toString BNaN = ''NaN''"
| "toString (BInfinity neg) = (if neg then ''-Infinity'' else ''Infinity'')"
| "toString (BFinite neg m k) =
     (if m = 0 then ''0''
      else (if neg then ''-'' else '''')
        @ (if lead_exp m k \<le> TO_EXP_NEG \<or> TO_EXP_POS \<le> lead_exp m k
           then toExponential (str_of_nat m) (lead_exp m k)
           else toFixedPoint (str_of_nat m) (lead_exp m k)))"

section \<open>Amounts\<close>

text \<open>
  A value of JavaScript as far as this file tells values apart. \<open>JNumber d\<close> is a number,
  held as the decimal \<open>d\<close> that its string form denotes (the form the BigNumber constructor
  reads); \<open>JBigNumber b\<close> is a BigNumber that the caller built; \<open>JObject\<close> is any other
  object, one with no field \<^verbatim>\<open>n\<close> or \<^verbatim>\<open>d\<close> and whose string form is no number.
\<close>

datatype jsval =
    JUndefined
  | JNull
  | JBoolean bool
  | JNumber bignumber
  | JString string
  | JBigNumber bignumber
  | JObject

fun isString :: "jsval \<Rightarrow> bool" where
  "isString (JString s) = True"
| "isString _ = False"

fun isUndefined :: "jsval \<Rightarrow> bool" where
  "isUndefined JUndefined = True"
| "isUndefined _ = False"

definition ONE :: nat where
  "ONE = 10000000"

definition MAX_INT64 :: string where
  "MAX_INT64 = ''9223372036854775807''"

text \<open>\<^verbatim>\<open>new BigNumber(n)\<close> on a number that is a natural number.\<close>

definition BigNumber_nat :: "nat \<Rightarrow> bignumber" where
  "BigNumber_nat n = BN_make False n 0"

text \<open>
  \<^verbatim>\<open>new BigNumber(c)\<close> where \<open>c\<close> is known to be a decimal literal (a string constant of the
  source, the string form of an integer), so that the constructor cannot throw.
\<close>

definition BigNumber_literal :: "string \<Rightarrow> bignumber" where
  "BigNumber_literal c = (case BigNumber_string c of Inr b \<Rightarrow> b | Inl e \<Rightarrow> BNaN)"

text \<open>
  \<^verbatim>\<open>isValidAmount(value, allowZero = false)\<close>. The six checks come in the order of the
  source; \<^verbatim>\<open>null > 7\<close> is false, so a value without decimal places passes the fourth.
\<close>

definition isValidAmount :: "jsval \<Rightarrow> bool \<Rightarrow> bool" where
  "isValidAmount v allowZero =
     (case v of
        JString s \<Rightarrow>
          (case BigNumber_string s of
             Inl e \<Rightarrow> False
           | Inr amount \<Rightarrow>
               if \<not> allowZero \<and> isZero amount then False
               else if isNegative amount then False
               else if greaterThan_bn (times_bn amount (BigNumber_nat ONE))
                         (BigNumber_literal (toString (BigNumber_literal MAX_INT64))) then False
               else if (case decimalPlaces amount of None \<Rightarrow> False | Some dp \<Rightarrow> 7 < dp) then False
               else if \<not> isFinite amount then False
               else if isNaN amount then False
               else True)
      | _ \<Rightarrow> False)"

text \<open>
  \<^verbatim>\<open>new BigNumber(value)\<close> on any value. A number with more than 15 significant digits
  that is not a safe integer is refused; \<^verbatim>\<open>undefined\<close>, \<^verbatim>\<open>null\<close>, a boolean and an object
  are read through their string forms, none of which is a number.
\<close>

definition MAX_SAFE_INTEGER :: int where
  "MAX_SAFE_INTEGER = 9007199254740991"

fun BigNumber_new :: "jsval \<Rightarrow> error + bignumber" where
  "BigNumber_new (JString s) = BigNumber_string s"
| "BigNumber_new (JBigNumber b) = Inr b"
| "BigNumber_new (JNumber (BFinite neg m k)) =
     (if 15 < length (str_of_nat m) \<and>
         (k < 0 \<or> (\<not> neg \<and> MAX_SAFE_INTEGER < int m * 10 ^ nat k))
      then Inl (Error ''new BigNumber() number type has more than 15 significant digits'')
      else Inr (BFinite neg m k))"
| "BigNumber_new (JNumber b) = Inr b"
| "BigNumber_new v = Inl (Error ''new BigNumber() not a number'')"

section \<open>64-bit integers: js-xdr's \<^verbatim>\<open>Hyper\<close> and \<^verbatim>\<open>UnsignedHyper\<close>\<close>

text \<open>
  \<^verbatim>\<open>Hyper.fromString\<close> takes a string that matches \<^verbatim>\<open>/^-?\d+$/\<close> and throws on any other;
  \<^verbatim>\<open>UnsignedHyper.fromString\<close> takes \<^verbatim>\<open>/^\d+$/\<close>. Both keep the low 64 bits of the number.
\<close>

definition Hyper_fromString :: "string \<Rightarrow> error + 64 word" where
  "Hyper_fromString str =
     (case split_sign str of (neg, ds) \<Rightarrow>
        if ds \<noteq> [] \<and> list_all is_digit ds
        then Inr (word_of_int ((if neg then - 1 else 1) * int (nat_of_str ds)))
        else Inl (Error ''Invalid hyper string''))"

definition UnsignedHyper_fromString :: "string \<Rightarrow> error + 64 word" where
  "UnsignedHyper_fromString str =
     (if str \<noteq> [] \<and> list_all is_digit str then Inr (word_of_nat (nat_of_str str))
      else Inl (Error ''Invalid hyper string''))"

definition Hyper_toString :: "64 word \<Rightarrow> string" where
  "Hyper_toString h = str_of_int (sint h)"

definition UnsignedHyper_toString :: "64 word \<Rightarrow> string" where
  "UnsignedHyper_toString u = str_of_nat (unat u)"

section \<open>Scaling amounts\<close>

text \<open>\<^verbatim>\<open>_toXDRAmount(value)\<close> and \<^verbatim>\<open>_fromXDRAmount(value)\<close>.\<close>

definition toXDRAmount :: "jsval \<Rightarrow> error + 64 word" where
  "toXDRAmount v =
     (case BigNumber_new v of
        Inl e \<Rightarrow> Inl e
      | Inr b \<Rightarrow> Hyper_fromString (toString (times_bn b (BigNumber_nat ONE))))"

definition fromXDRAmount :: "64 word \<Rightarrow> string" where
  "fromXDRAmount v = toString (div_bn (BigNumber_literal (Hyper_toString v)) (BigNumber_nat ONE))"

section \<open>Prices\<close>

text \<open>
  An \<^verbatim>\<open>xdr.Price\<close> holds a numerator and a denominator. The price a caller gives is an
  object with the fields \<^verbatim>\<open>n\<close> and \<^verbatim>\<open>d\<close>, or any other value. Numerators and denominators
  are held as integers.
\<close>

datatype xdr_price = Price (price_n: int) (price_d: int)

datatype price_arg = PriceObject int int | PriceValue jsval

text \<open>\<^verbatim>\<open>new BigNumber(i)\<close> on a number with an integer value.\<close>

definition BigNumber_int :: "int \<Rightarrow> bignumber" where
  "BigNumber_int i = BN_make (i < 0) (nat \<bar>i\<bar>) 0"

definition fromXDRPrice :: "xdr_price \<Rightarrow> string" where
  "fromXDRPrice p = toString (div_bn (BigNumber_int (price_n p)) (BigNumber_int (price_d p)))"

text \<open>
  \<^verbatim>\<open>_toXDRPrice(price)\<close>. The continued-fraction search \<^verbatim>\<open>best_r\<close> of
  \<^verbatim>\<open>util/continued_fraction\<close> is a parameter; it returns two integers, which \<^verbatim>\<open>parseInt\<close>
  leaves as they are. The test \<^verbatim>\<open>price.n && price.d\<close> fails when either field is zero, and
  an object is no number for the BigNumber constructor; reading a field of \<^verbatim>\<open>undefined\<close> or
  \<^verbatim>\<open>null\<close> throws a \<^verbatim>\<open>TypeError\<close>.
\<close>

definition toXDRPrice :: "(bignumber \<Rightarrow> error + int \<times> int) \<Rightarrow> price_arg \<Rightarrow> error + xdr_price" where
  "toXDRPrice approximate p =
     (case (case p of
              PriceObject pn pd \<Rightarrow>
                if pn \<noteq> 0 \<and> pd \<noteq> 0 then Inr (Price pn pd)
                else (case BigNumber_new JObject of
                        Inl e \<Rightarrow> Inl e
                      | Inr b \<Rightarrow> (case approximate b of
                                    Inl e \<Rightarrow> Inl e
                                  | Inr (a0, a1) \<Rightarrow> Inr (Price a0 a1)))
            | PriceValue v \<Rightarrow>
                if v = JUndefined \<or> v = JNull
                then Inl (TypeError ''Cannot read property n of undefined'')
                else (case BigNumber_new v of
                        Inl e \<Rightarrow> Inl e
                      | Inr b \<Rightarrow> (case approximate b of
                                    Inl e \<Rightarrow> Inl e
                                  | Inr (a0, a1) \<Rightarrow> Inr (Price a0 a1)))) of
        Inl e \<Rightarrow> Inl e
      | Inr xdrObject \<Rightarrow>
          if price_n xdrObject < 0 \<or> price_d xdrObject < 0
          then Inl (Error ''price must be positive'')
          else Inr xdrObject)"

section \<open>Collaborators\<close>

text \<open>
  \<^verbatim>\<open>operation.js\<close> imports the account, key and asset codecs and the price approximation
  from modules of their own. They are parameters of every function that calls them:
  \<^item> \<open>Account_isValidAccountId\<close> is \<^verbatim>\<open>Account.isValidAccountId\<close>;
  \<^item> \<open>Keypair_xdrAccountId\<close> is \<^verbatim>\<open>Keypair.fromAccountId(address).xdrAccountId()\<close>;
  \<^item> \<open>accountIdtoAddress\<close> is \<^verbatim>\<open>encodeCheck("accountId", accountId.ed25519())\<close>;
  \<^item> \<open>Asset_toXdrObject\<close> and \<open>Asset_fromOperation\<close> are the asset codec;
  \<^item> \<open>best_r\<close> is the continued-fraction search.
  The type \<open>'k\<close> is the binary account id, \<open>'a\<close> an asset and \<open>'x\<close> its binary form.
\<close>

record ('k, 'a, 'x) deps =
  Account_isValidAccountId :: "string \<Rightarrow> bool"
  Keypair_xdrAccountId :: "string \<Rightarrow> 'k"
  accountIdtoAddress :: "'k \<Rightarrow> string"
  Asset_toXdrObject :: "'a \<Rightarrow> 'x"
  Asset_fromOperation :: "'x \<Rightarrow> 'a"
  best_r :: "bignumber \<Rightarrow> error + int \<times> int"

section \<open>Options and operations\<close>

text \<open>
  The options object \<^verbatim>\<open>opts\<close> of the constructors, which is also the object that
  \<^verbatim>\<open>operationToObject\<close> fills: each field is absent (\<open>None\<close>, \<open>JUndefined\<close>) or has a value.
  Flags, weights and thresholds are held as integers.
\<close>

datatype signer_opts = SignerOpts "string option" "int option"

record 'a opts =
  source :: "string option"
  type :: "string option"
  destination :: "string option"
  startingBalance :: jsval
  asset :: "'a option"
  amount :: jsval
  sendAsset :: "'a option"
  sendMax :: jsval
  destAsset :: "'a option"
  destAmount :: jsval
  path :: "'a list option"
  line :: "'a option"
  limit :: jsval
  trustor :: "string option"
  assetCode :: "string option"
  authorize :: "bool option"
  inflationDest :: "string option"
  clearFlags :: "int option"
  setFlags :: "int option"
  masterWeight :: "int option"
  lowThreshold :: "int option"
  medThreshold :: "int option"
  highThreshold :: "int option"
  homeDomain :: jsval
  signer :: "signer_opts option"
  selling :: "'a option"
  buying :: "'a option"
  price :: price_arg
  offerId :: jsval

text \<open>The empty object \<^verbatim>\<open>{}\<close>.\<close>

definition empty_opts :: "'a opts" where
  "empty_opts =
     \<lparr> source = None, type = None, destination = None, startingBalance = JUndefined,
       asset = None, amount = JUndefined, sendAsset = None, sendMax = JUndefined,
       destAsset = None, destAmount = JUndefined, path = None, line = None,
       limit = JUndefined, trustor = None, assetCode = None, authorize = None,
       inflationDest = None, clearFlags = None, setFlags = None, masterWeight = None,
       lowThreshold = None, medThreshold = None, highThreshold = None,
       homeDomain = JUndefined, signer = None, selling = None, buying = None,
       price = PriceValue JUndefined, offerId = JUndefined \<rparr>"

text \<open>
  The binary operation record: an optional source account and a body, a union over the
  operation types. \<open>OtherBody\<close> stands for an arm of the union that \<^verbatim>\<open>operation.js\<close> does
  not know, with the name of its tag. The fields of each arm come in the order in which
  \<^verbatim>\<open>operationToObject\<close> reads them:
  \<^item> \<open>CreateAccountBody\<close>: destination, startingBalance;
  \<^item> \<open>PaymentBody\<close>: destination, asset, amount;
  \<^item> \<open>PathPaymentBody\<close>: sendAsset, sendMax, destination, destAsset, destAmount, path;
  \<^item> \<open>ChangeTrustBody\<close>: line, limit;
  \<^item> \<open>AllowTrustBody\<close>: trustor, asset, authorize;
  \<^item> \<open>SetOptionBody\<close>: inflationDest, clearFlags, setFlags, masterWeight, lowThreshold,
    medThreshold, highThreshold, homeDomain, signer (\<open>XdrSigner\<close>: pubKey, weight);
  \<^item> \<open>ManageOfferBody\<close>: selling, buying, amount, price, offerId;
  \<^item> \<open>CreatePassiveOfferBody\<close>: selling, buying, amount, price;
  \<^item> \<open>AccountMergeBody\<close>: the destination.
\<close>

datatype allow_trust_asset = AssetTypeCreditAlphanum4 string | AssetTypeCreditAlphanum12 string

datatype 'k xdr_signer = XdrSigner 'k "int option"

datatype ('k, 'x) operation_body =
    CreateAccountBody 'k "64 word"
  | PaymentBody 'k 'x "64 word"
  | PathPaymentBody 'x "64 word" 'k 'x "64 word" "'x list"
  | ChangeTrustBody 'x "64 word"
  | AllowTrustBody 'k allow_trust_asset "bool option"
  | SetOptionBody "'k option" "int option" "int option" "int option" "int option"
      "int option" "int option" "string option" "'k xdr_signer option"
  | ManageOfferBody 'x 'x "64 word" xdr_price "64 word"
  | CreatePassiveOfferBody 'x 'x "64 word" xdr_price
  | AccountMergeBody 'k
  | InflationBody
  | OtherBody string

datatype ('k, 'x) operation = Operation (sourceAccount: "'k option") (body: "('k, 'x) operation_body")

text \<open>\<^verbatim>\<open>operation.body().switch().name\<close>, and the ten names with a case of their own.\<close>

fun switch_name :: "('k, 'x) operation_body \<Rightarrow> string" where
  "switch_name (CreateAccountBody dest bal) = ''createAccount''"
| "switch_name (PaymentBody dest a amt) = ''payment''"
| "switch_name (PathPaymentBody sa sm dest da dam p) = ''pathPayment''"
| "switch_name (ChangeTrustBody l lm) = ''changeTrust''"
| "switch_name (AllowTrustBody t a auth) = ''allowTrust''"
| "switch_name (SetOptionBody dst cf sf mw lt mt ht hdom sg) = ''setOption''"
| "switch_name (ManageOfferBody sel buy amt pr oid) = ''manageOffer''"
| "switch_name (CreatePassiveOfferBody sel buy amt pr) = ''createPassiveOffer''"
| "switch_name (AccountMergeBody dest) = ''accountMerge''"
| "switch_name InflationBody = ''inflation''"
| "switch_name (OtherBody tag) = tag"

definition known_names :: "string list" where
  "known_names =
     [''createAccount'', ''payment'', ''pathPayment'', ''changeTrust'', ''allowTrust'',
      ''setOption'', ''manageOffer'', ''createPassiveOffer'', ''accountMerge'', ''inflation'']"

section \<open>Constructing operations\<close>

text \<open>A step that throws ends the function; otherwise the next step gets its result.\<close>

definition and_then :: "error + 'b \<Rightarrow> ('b \<Rightarrow> error + 'c) \<Rightarrow> error + 'c" where
  "and_then r f = (case r of Inl e \<Rightarrow> Inl e | Inr x \<Rightarrow> f x)"

text \<open>What \<^verbatim>\<open>if (v)\<close> takes for true.\<close>

fun truthy :: "jsval \<Rightarrow> bool" where
  "truthy JUndefined = False"
| "truthy JNull = False"
| "truthy (JBoolean b) = b"
| "truthy (JNumber d) = (\<not> isZero d \<and> \<not> isNaN d)"
| "truthy (JString s) = (s \<noteq> [])"
| "truthy (JBigNumber b) = True"
| "truthy JObject = True"

definition truthy_str :: "string option \<Rightarrow> bool" where
  "truthy_str x = (case x of None \<Rightarrow> False | Some s \<Rightarrow> s \<noteq> [])"

text \<open>
  The check \<^verbatim>\<open>if (!Account.isValidAccountId(x)) throw new Error(msg)\<close>, with the binary form
  \<^verbatim>\<open>Keypair.fromAccountId(x).xdrAccountId()\<close> that the source takes of \<open>x\<close> further down,
  once \<open>x\<close> is known to be valid. An absent \<open>x\<close> is not a valid account id.
\<close>

definition checkAccountId :: "('k, 'a, 'x) deps \<Rightarrow> string option \<Rightarrow> string \<Rightarrow> error + 'k" where
  "checkAccountId C x msg =
     (case x of
        None \<Rightarrow> Inl (Error msg)
      | Some s \<Rightarrow>
          if \<not> Account_isValidAccountId C s then Inl (Error msg)
          else Inr (Keypair_xdrAccountId C s))"

text \<open>\<^verbatim>\<open>setSourceAccount(opAttributes, opts)\<close>: the source account it sets, if any.\<close>

definition setSourceAccount :: "('k, 'a, 'x) deps \<Rightarrow> 'a opts \<Rightarrow> error + 'k option" where
  "setSourceAccount C opts =
     (if truthy_str (source opts)
      then and_then (checkAccountId C (source opts) ''Source address is invalid'')
             (\<lambda>k. Inr (Some k))
      else Inr None)"

text \<open>Calling \<^verbatim>\<open>toXdrObject()\<close> on an asset that is absent throws a \<^verbatim>\<open>TypeError\<close>.\<close>

definition toXdrObject :: "('k, 'a, 'x) deps \<Rightarrow> 'a option \<Rightarrow> error + 'x" where
  "toXdrObject C x =
     (case x of
        None \<Rightarrow> Inl (TypeError ''Cannot read property toXdrObject of undefined'')
      | Some a \<Rightarrow> Inr (Asset_toXdrObject C a))"

definition createAccount :: "('k, 'a, 'x) deps \<Rightarrow> 'a opts \<Rightarrow> error + ('k, 'x) operation" where
  "createAccount C opts =
     and_then (checkAccountId C (destination opts) ''destination is invalid'') (\<lambda>dest.
     if \<not> isValidAmount (startingBalance opts) False
     then Inl (TypeError
       ''startingBalance argument must be of type String and represent a positive number'')
     else
     and_then (toXDRAmount (startingBalance opts)) (\<lambda>bal.
     and_then (setSourceAccount C opts) (\<lambda>src.
     Inr (Operation src (CreateAccountBody dest bal)))))"

definition payment :: "('k, 'a, 'x) deps \<Rightarrow> 'a opts \<Rightarrow> error + ('k, 'x) operation" where
  "payment C opts =
     and_then (checkAccountId C (destination opts) ''destination is invalid'') (\<lambda>dest.
     if asset opts = None
     then Inl (Error ''Must provide an asset for a payment operation'')
     else if \<not> isValidAmount (amount opts) False
     then Inl (TypeError ''amount argument must be of type String and represent a positive number'')
     else
     and_then (toXdrObject C (asset opts)) (\<lambda>a.
     and_then (toXDRAmount (amount opts)) (\<lambda>amt.
     and_then (setSourceAccount C opts) (\<lambda>src.
     Inr (Operation src (PaymentBody dest a amt))))))"

text \<open>An absent \<^verbatim>\<open>opts.path\<close> is the empty path.\<close>

definition pathPayment :: "('k, 'a, 'x) deps \<Rightarrow> 'a opts \<Rightarrow> error + ('k, 'x) operation" where
  "pathPayment C opts =
     (if sendAsset opts = None then Inl (Error ''Must specify a send asset'')
      else if \<not> isValidAmount (sendMax opts) False
      then Inl (TypeError ''sendMax argument must be of type String and represent a positive number'')
      else
      and_then (checkAccountId C (destination opts) ''destination is invalid'') (\<lambda>dest.
      if destAsset opts = None
      then Inl (Error ''Must provide a destAsset for a payment operation'')
      else if \<not> isValidAmount (destAmount opts) False
      then Inl (TypeError
        ''destAmount argument must be of type String and represent a positive number'')
      else
      and_then (toXdrObject C (sendAsset opts)) (\<lambda>sa.
      and_then (toXDRAmount (sendMax opts)) (\<lambda>sm.
      and_then (toXdrObject C (destAsset opts)) (\<lambda>da.
      and_then (toXDRAmount (destAmount opts)) (\<lambda>dam.
      and_then (setSourceAccount C opts) (\<lambda>src.
      Inr (Operation src
        (PathPaymentBody sa sm dest da dam
           (map (Asset_toXdrObject C) (case path opts of None \<Rightarrow> [] | Some p \<Rightarrow> p)))))))))))"

text \<open>
  \<^verbatim>\<open>changeTrust\<close> also sets \<^verbatim>\<open>attributes.source\<close>, a field that \<^verbatim>\<open>xdr.ChangeTrustOp\<close> does not
  have and drops.
\<close>

definition changeTrust :: "('k, 'a, 'x) deps \<Rightarrow> 'a opts \<Rightarrow> error + ('k, 'x) operation" where
  "changeTrust C opts =
     and_then (toXdrObject C (asset opts)) (\<lambda>l.
     if \<not> isUndefined (limit opts) \<and> \<not> isValidAmount (limit opts) True
     then Inl (TypeError ''limit argument must be of type String and represent a number'')
     else
     and_then (if truthy (limit opts) then toXDRAmount (limit opts)
               else Hyper_fromString (toString (BigNumber_literal MAX_INT64))) (\<lambda>lm.
     and_then (setSourceAccount C opts) (\<lambda>src.
     Inr (Operation src (ChangeTrustBody l lm)))))"

text \<open>
  lodash's \<^verbatim>\<open>padEnd(string, length, chars)\<close> with a single padding character, and
  \<^verbatim>\<open>trimEnd(string, chars)\<close> with a single character to trim.
\<close>

definition NUL :: char where
  "NUL = CHR 0x00"


definition trimEnd :: "string \<Rightarrow> char \<Rightarrow> string" where
  "trimEnd str c = rev (dropWhile (\<lambda>x. x = c) (rev str))"


text \<open>
  A weight or threshold that is given must lie between 0 and 255:
  \<^verbatim>\<open>!isUndefined(w) && (w < 0 || w > 255)\<close>.
\<close>

definition out_of_range :: "int option \<Rightarrow> bool" where
  "out_of_range w = (case w of None \<Rightarrow> False | Some i \<Rightarrow> i < 0 \<or> 255 < i)"

definition setOptions :: "('k, 'a, 'x) deps \<Rightarrow> 'a opts \<Rightarrow> error + ('k, 'x) operation" where
  "setOptions C opts =
     and_then (if truthy_str (inflationDest opts)
               then and_then (checkAccountId C (inflationDest opts) ''inflationDest is invalid'')
                      (\<lambda>k. Inr (Some k))
               else Inr None) (\<lambda>dst.
     if out_of_range (masterWeight opts)
     then Inl (Error ''masterWeight value must be between 0 and 255'')
     else if out_of_range (lowThreshold opts)
     then Inl (Error ''lowThreshold value must be between 0 and 255'')
     else if out_of_range (medThreshold opts)
     then Inl (Error ''medThreshold value must be between 0 and 255'')
     else if out_of_range (highThreshold opts)
     then Inl (Error ''highThreshold value must be between 0 and 255'')
     else if \<not> isUndefined (homeDomain opts) \<and> \<not> isString (homeDomain opts)
     then Inl (TypeError ''homeDomain argument must be of type String'')
     else
     and_then (case signer opts of
                 None \<Rightarrow> Inr None
               | Some (SignerOpts address weight) \<Rightarrow>
                   and_then (checkAccountId C address ''signer.address is invalid'') (\<lambda>k.
                   if out_of_range weight
                   then Inl (Error ''signer.weight value must be between 0 and 255'')
                   else Inr (Some (XdrSigner k weight)))) (\<lambda>sg.
     and_then (setSourceAccount C opts) (\<lambda>src.
     Inr (Operation src
       (SetOptionBody dst (clearFlags opts) (setFlags opts) (masterWeight opts)
          (lowThreshold opts) (medThreshold opts) (highThreshold opts)
          (case homeDomain opts of JString s \<Rightarrow> Some s | _ \<Rightarrow> None) sg)))))"

text \<open>
  \<^verbatim>\<open>opts.offerId.toString()\<close>. A number prints as the decimal it denotes, in the notation
  that BigNumber shares with JavaScript; \<^verbatim>\<open>null\<close> has no method to call.
\<close>

fun offerId_toString :: "jsval \<Rightarrow> error + string" where
  "offerId_toString JUndefined = Inr ''0''"
| "offerId_toString JNull = Inl (TypeError ''Cannot read property toString of null'')"
| "offerId_toString (JBoolean b) = Inr (if b then ''true'' else ''false'')"
| "offerId_toString (JNumber d) = Inr (toString d)"
| "offerId_toString (JString s) = Inr s"
| "offerId_toString (JBigNumber b) = Inr (toString b)"
| "offerId_toString JObject = Inr ''[object Object]''"

text \<open>
  \<^verbatim>\<open>manageOffer\<close> also stores the string form of the offer id back into \<^verbatim>\<open>opts.offerId\<close>;
  the operation it returns does not depend on that.
\<close>

definition manageOffer :: "('k, 'a, 'x) deps \<Rightarrow> 'a opts \<Rightarrow> error + ('k, 'x) operation" where
  "manageOffer C opts =
     and_then (toXdrObject C (selling opts)) (\<lambda>sel.
     and_then (toXdrObject C (buying opts)) (\<lambda>buy.
     if \<not> isValidAmount (amount opts) True
     then Inl (TypeError
       ''amount argument must be of type String and represent a positive number or zero'')
     else
     and_then (toXDRAmount (amount opts)) (\<lambda>amt.
     if price opts = PriceValue JUndefined then Inl (TypeError ''price argument is required'')
     else
     and_then (toXDRPrice (best_r C) (price opts)) (\<lambda>pr.
     and_then (offerId_toString (offerId opts)) (\<lambda>str.
     and_then (UnsignedHyper_fromString str) (\<lambda>oid.
     and_then (setSourceAccount C opts) (\<lambda>src.
     Inr (Operation src (ManageOfferBody sel buy amt pr oid)))))))))"

definition createPassiveOffer :: "('k, 'a, 'x) deps \<Rightarrow> 'a opts \<Rightarrow> error + ('k, 'x) operation" where
  "createPassiveOffer C opts =
     and_then (toXdrObject C (selling opts)) (\<lambda>sel.
     and_then (toXdrObject C (buying opts)) (\<lambda>buy.
     if \<not> isValidAmount (amount opts) False
     then Inl (TypeError ''amount argument must be of type String and represent a positive number'')
     else
     and_then (toXDRAmount (amount opts)) (\<lambda>amt.
     if price opts = PriceValue JUndefined then Inl (TypeError ''price argument is required'')
     else
     and_then (toXDRPrice (best_r C) (price opts)) (\<lambda>pr.
     and_then (setSourceAccount C opts) (\<lambda>src.
     Inr (Operation src (CreatePassiveOfferBody sel buy amt pr)))))))"



section \<open>Decoding operations\<close>

text \<open>
  \<^verbatim>\<open>operationToObject(operation)\<close>: the result starts as the empty object, gets the source
  account if the operation has one, and then the fields of the operation's type.
\<close>

definition allow_trust_code :: "allow_trust_asset \<Rightarrow> string" where
  "allow_trust_code a =
     (case a of AssetTypeCreditAlphanum4 c \<Rightarrow> c | AssetTypeCreditAlphanum12 c \<Rightarrow> c)"

definition operationToObject :: "('k, 'a, 'x) deps \<Rightarrow> ('k, 'x) operation \<Rightarrow> error + 'a opts" where
  "operationToObject C operation =
     (let result = empty_opts \<lparr> source := map_option (accountIdtoAddress C) (sourceAccount operation) \<rparr>
      in case body operation of
          CreateAccountBody dest bal \<Rightarrow>
            Inr (result \<lparr> type := Some ''createAccount'',
                   destination := Some (accountIdtoAddress C dest),
                   startingBalance := JString (fromXDRAmount bal) \<rparr>)
        | PaymentBody dest a amt \<Rightarrow>
            Inr (result \<lparr> type := Some ''payment'',
                   destination := Some (accountIdtoAddress C dest),
                   asset := Some (Asset_fromOperation C a),
                   amount := JString (fromXDRAmount amt) \<rparr>)
        | PathPaymentBody sa sm dest da dam p \<Rightarrow>
            Inr (result \<lparr> type := Some ''pathPayment'',
                   sendAsset := Some (Asset_fromOperation C sa),
                   sendMax := JString (fromXDRAmount sm),
                   destination := Some (accountIdtoAddress C dest),
                   destAsset := Some (Asset_fromOperation C da),
                   destAmount := JString (fromXDRAmount dam),
                   path := Some (map (Asset_fromOperation C) p) \<rparr>)
        | ChangeTrustBody l lm \<Rightarrow>
            Inr (result \<lparr> type := Some ''changeTrust'',
                   line := Some (Asset_fromOperation C l),
                   limit := JString (fromXDRAmount lm) \<rparr>)
        | AllowTrustBody t a auth \<Rightarrow>
            Inr (result \<lparr> type := Some ''allowTrust'',
                   trustor := Some (accountIdtoAddress C t),
                   assetCode := Some (trimEnd (allow_trust_code a) NUL),
                   authorize := auth \<rparr>)
        | SetOptionBody dst cf sf mw lt mt ht hdom sg \<Rightarrow>
            Inr (result \<lparr> type := Some ''setOptions'',
                   inflationDest := map_option (accountIdtoAddress C) dst,
                   clearFlags := cf,
                   setFlags := sf,
                   masterWeight := mw,
                   lowThreshold := lt,
                   medThreshold := mt,
                   highThreshold := ht,
                   homeDomain := (case hdom of None \<Rightarrow> JUndefined | Some s \<Rightarrow> JString s),
                   signer := map_option
                     (\<lambda>g. case g of XdrSigner k w \<Rightarrow> SignerOpts (Some (accountIdtoAddress C k)) w)
                     sg \<rparr>)
        | ManageOfferBody sel buy amt pr oid \<Rightarrow>
            Inr (result \<lparr> type := Some ''manageOffer'',
                   selling := Some (Asset_fromOperation C sel),
                   buying := Some (Asset_fromOperation C buy),
                   amount := JString (fromXDRAmount amt),
                   price := PriceValue (JString (fromXDRPrice pr)),
                   offerId := JString (UnsignedHyper_toString oid) \<rparr>)
        | CreatePassiveOfferBody sel buy amt pr \<Rightarrow>
            Inr (result \<lparr> type := Some ''createPassiveOffer'',
                   selling := Some (Asset_fromOperation C sel),
                   buying := Some (Asset_fromOperation C buy),
                   amount := JString (fromXDRAmount amt),
                   price := PriceValue (JString (fromXDRPrice pr)) \<rparr>)
        | AccountMergeBody dest \<Rightarrow>
            Inr (result \<lparr> type := Some ''accountMerge'',
                   destination := Some (accountIdtoAddress C dest) \<rparr>)
        | InflationBody \<Rightarrow> Inr (result \<lparr> type := Some ''inflation'' \<rparr>)
        | OtherBody tag \<Rightarrow> Inl (Error ''Unknown operation''))"

section \<open>What the specification says of amounts, weights and prices\<close>





text \<open>What the specification asks of a weight or threshold: absent, or within 0 and 255.\<close>

definition in_range_255 :: "int option \<Rightarrow> bool" where
  "in_range_255 w = (case w of None \<Rightarrow> True | Some i \<Rightarrow> 0 \<le> i \<and> i \<le> 255)"

text \<open>The weight of the signer that the options give, if they give one.\<close>

definition signer_weight :: "'a opts \<Rightarrow> int option" where
  "signer_weight opts = (case signer opts of None \<Rightarrow> None | Some (SignerOpts address weight) \<Rightarrow> weight)"

definition signer_address :: "'a opts \<Rightarrow> string option" where
  "signer_address opts = (case signer opts of None \<Rightarrow> None | Some (SignerOpts address weight) \<Rightarrow> address)"

text \<open>
  Modelled from the spec: the continued-fraction search \<^verbatim>\<open>best_r\<close> is in
  \<^verbatim>\<open>util/continued_fraction\<close>, which is not among the sources. The specification says that it
  signals an error when it finds no ratio within bounds, and that a price is never
  approximated by \<open>0/0\<close> or similar: what it returns has no zero numerator and no zero
  denominator.
\<close>

definition never_zero :: "(bignumber \<Rightarrow> error + int \<times> int) \<Rightarrow> bool" where
  "never_zero approximate = (\<forall>b a0 a1. approximate b = Inr (a0, a1) \<longrightarrow> a0 \<noteq> 0 \<and> a1 \<noteq> 0)"

section \<open>What decoding returns for each constructor\<close>















section \<open>Collaborators for examples\<close>

text \<open>
  Stand-ins for the collaborators, to run the functions on concrete inputs: an address is
  valid when it starts with \<^verbatim>\<open>G\<close>, account ids and assets are their own binary forms, and
  the approximation of a price knows the integers only.
\<close>

fun example_best_r :: "bignumber \<Rightarrow> error + int \<times> int" where
  "example_best_r (BFinite neg m k) =
     (if \<not> neg \<and> 0 < m \<and> 0 \<le> k \<and> int m * 10 ^ nat k \<le> 2147483647
      then Inr (int m * 10 ^ nat k, 1)
      else Inl (Error ''Couldn't find approximation''))"
| "example_best_r b = Inl (Error ''Couldn't find approximation'')"

definition example_deps :: "(string, string, string) deps" where
  "example_deps =
     \<lparr> Account_isValidAccountId = (\<lambda>s. s \<noteq> [] \<and> hd s = CHR ''G''),
       Keypair_xdrAccountId = (\<lambda>s. s),
       accountIdtoAddress = (\<lambda>k. k),
       Asset_toXdrObject = (\<lambda>a. a),
       Asset_fromOperation = (\<lambda>x. x),
       best_r = example_best_r \<rparr>"

section \<open>The form of a BigNumber\<close>

text \<open>
  Every BigNumber that the library builds is in one form: zero has exponent zero, and the
  digits of a nonzero value end in no zero and its exponent is within range.
\<close>

fun normal_bn :: "bignumber \<Rightarrow> bool" where
  "normal_bn (BFinite neg m k) =
     (if m = 0 then k = 0
      else \<not> 10 dvd m \<and> - MAX_EXP \<le> lead_exp m k \<and> lead_exp m k \<le> MAX_EXP)"
| "normal_bn b = True"

section \<open>Digits and strings\<close>

declare str_of_nat.simps [simp del] strip_zeros.simps [simp del]

lemma digit_cases: "d < 10 \<Longrightarrow> d \<in> {0, 1, 2, 3, 4, 5, 6, 7, 8, 9 :: nat}"
  by auto

lemma digit_val_digit_char: "d < 10 \<Longrightarrow> digit_val (digit_char d) = d"
  by (drule digit_cases) (auto simp: digit_val_def digit_char_def)

lemma is_digit_digit_char: "d < 10 \<Longrightarrow> is_digit (digit_char d)"
  by (drule digit_cases) (auto simp: is_digit_def digit_char_def)

lemma nat_of_str_snoc: "nat_of_str (xs @ [c]) = 10 * nat_of_str xs + digit_val c"
  by (simp add: nat_of_str_def)

lemma str_of_nat_nonempty: "str_of_nat n \<noteq> []"
  by (subst str_of_nat.simps) simp

lemma str_of_nat_digits: "list_all is_digit (str_of_nat n)"
proof (induction n rule: str_of_nat.induct)
  case (1 n)
  show ?case
  proof (cases "n < 10")
    case True
    then show ?thesis by (subst str_of_nat.simps) (simp add: is_digit_digit_char)
  next
    case False
    with 1 show ?thesis by (subst str_of_nat.simps) (simp add: is_digit_digit_char)
  qed
qed

lemma nat_of_str_of_nat: "nat_of_str (str_of_nat n) = n"
proof (induction n rule: str_of_nat.induct)
  case (1 n)
  show ?case
  proof (cases "n < 10")
    case True
    then show ?thesis
      by (subst str_of_nat.simps) (simp add: nat_of_str_def digit_val_digit_char)
  next
    case False
    with 1 show ?thesis
      by (subst str_of_nat.simps) (simp add: nat_of_str_snoc digit_val_digit_char)
  qed
qed

lemma str_of_nat_times10: "0 < m \<Longrightarrow> str_of_nat (m * 10) = str_of_nat m @ ''0''"
  by (subst str_of_nat.simps) (simp add: digit_char_def)

lemma str_of_nat_pow10: "0 < m \<Longrightarrow> str_of_nat (m * 10 ^ j) = str_of_nat m @ replicate j CHR ''0''"
proof (induction j)
  case 0
  then show ?case by simp
next
  case (Suc j)
  have "str_of_nat (m * 10 ^ Suc j) = str_of_nat ((m * 10 ^ j) * 10)"
    by (simp add: mult_ac)
  also have "\<dots> = str_of_nat (m * 10 ^ j) @ ''0''"
    using Suc.prems by (intro str_of_nat_times10) simp
  also have "\<dots> = str_of_nat m @ replicate (Suc j) CHR ''0''"
    using Suc by (simp add: replicate_append_same)
  finally show ?case .
qed

lemma length_str_of_nat_lower: "0 < n \<Longrightarrow> 10 ^ (length (str_of_nat n) - 1) \<le> n"
proof (induction n rule: str_of_nat.induct)
  case (1 n)
  show ?case
  proof (cases "n < 10")
    case True
    with 1 show ?thesis by (subst str_of_nat.simps) simp
  next
    case False
    with 1 have "10 ^ (length (str_of_nat (n div 10)) - 1) \<le> n div 10" by simp
    then have "10 * 10 ^ (length (str_of_nat (n div 10)) - 1) \<le> n" by simp
    moreover have "length (str_of_nat (n div 10)) \<noteq> 0" by (simp add: str_of_nat_nonempty)
    ultimately have "10 ^ length (str_of_nat (n div 10)) \<le> n"
      by (cases "length (str_of_nat (n div 10))") simp_all
    with False show ?thesis by (subst str_of_nat.simps) simp
  qed
qed

lemma strip_zeros_id: "\<not> 10 dvd m \<Longrightarrow> strip_zeros m k = (m, k)"
  by (subst strip_zeros.simps) (simp add: dvd_eq_mod_eq_0)

lemma strip_zeros_times10: "0 < m \<Longrightarrow> strip_zeros (m * 10) k = strip_zeros m (k + 1)"
  by (subst strip_zeros.simps) simp

lemma strip_zeros_pow10: "0 < m \<Longrightarrow> strip_zeros (m * 10 ^ j) k = strip_zeros m (k + int j)"
proof (induction j arbitrary: k)
  case 0
  then show ?case by simp
next
  case (Suc j)
  have "strip_zeros (m * 10 ^ Suc j) k = strip_zeros ((m * 10 ^ j) * 10) k"
    by (simp add: mult_ac)
  also have "\<dots> = strip_zeros (m * 10 ^ j) (k + 1)"
    using Suc.prems by (intro strip_zeros_times10) simp
  also have "\<dots> = strip_zeros m (k + 1 + int j)"
    using Suc by simp
  finally show ?case by (simp add: add_ac)
qed

lemma strip_zeros_normal:
  "0 < m \<Longrightarrow> strip_zeros m k = (m', k') \<Longrightarrow> 0 < m' \<and> \<not> 10 dvd m' \<and> k \<le> k' \<and> m = m' * 10 ^ nat (k' - k)"
proof (induction m k rule: strip_zeros.induct)
  case (1 m k)
  show ?case
  proof (cases "m mod 10 = 0")
    case True
    with "1.prems" have rec: "strip_zeros (m div 10) (k + 1) = (m', k')"
      by (subst (asm) strip_zeros.simps) simp
    from True "1.prems" have pos: "0 < m div 10" by (simp add: div_greater_zero_iff) presburger
    from "1.IH" [OF _ pos rec] True "1.prems"
    have ih: "0 < m' \<and> \<not> 10 dvd m' \<and> k + 1 \<le> k' \<and> m div 10 = m' * 10 ^ nat (k' - (k + 1))"
      by simp
    then have "k + 1 \<le> k'" by simp
    then have "nat (k' - k) = Suc (nat (k' - (k + 1)))" by arith
    moreover from True have "m = (m div 10) * 10" by presburger
    ultimately show ?thesis using ih by simp
  next
    case False
    with "1.prems" have "m' = m" "k' = k"
      by (subst (asm) strip_zeros.simps, simp)+
    with False "1.prems" show ?thesis by (simp add: dvd_eq_mod_eq_0)
  qed
qed

section \<open>Facts about the decimal library\<close>

lemma BN_make_normal: "normal_bn (BN_make neg m k)"
proof (cases "m = 0")
  case True
  then show ?thesis by (simp add: BN_make_def)
next
  case False
  obtain m' k' where sz: "strip_zeros m k = (m', k')" by (cases "strip_zeros m k")
  with False have "0 < m'" "\<not> 10 dvd m'" using strip_zeros_normal [of m k m' k'] by simp_all
  with False sz show ?thesis by (simp add: BN_make_def)
qed

lemma BN_make_id:
  "0 < m \<Longrightarrow> \<not> 10 dvd m \<Longrightarrow> - MAX_EXP \<le> lead_exp m k \<Longrightarrow> lead_exp m k \<le> MAX_EXP \<Longrightarrow>
   BN_make neg m k = BFinite neg m k"
  by (simp add: BN_make_def strip_zeros_id)

lemma BN_make_zero: "BN_make neg 0 k = BFinite neg 0 0"
  by (simp add: BN_make_def)

lemma BigNumber_string_normal: "BigNumber_string s = Inr b \<Longrightarrow> normal_bn b"
  by (auto simp: BigNumber_string_def BN_make_normal split: option.splits if_splits)

lemma BigNumber_nat_ONE: "BigNumber_nat ONE = BFinite False 1 7"
  by (simp add: BigNumber_nat_def ONE_def BN_make_def strip_zeros.simps lead_exp_def
      str_of_nat.simps MAX_EXP_def)

lemma length_MAX: "length (str_of_nat 9223372036854775807) = 19"
  by (simp add: str_of_nat.simps)

lemma BigNumber_string_MAX: "BigNumber_string MAX_INT64 = Inr (BFinite False 9223372036854775807 0)"
  by (simp add: BigNumber_string_def MAX_INT64_def parse_decimal_def split_sign_def
      split_fraction_def is_digit_def nat_of_str_def digit_val_def BN_make_def
      strip_zeros.simps lead_exp_def length_MAX MAX_EXP_def)

lemma toString_MAX: "toString (BFinite False 9223372036854775807 0) = MAX_INT64"
  by (simp add: lead_exp_def length_MAX TO_EXP_NEG_def TO_EXP_POS_def toFixedPoint_def
      MAX_INT64_def str_of_nat.simps digit_char_def)

lemma MAX_bn: "BigNumber_literal (toString (BigNumber_literal MAX_INT64)) = BFinite False 9223372036854775807 0"
  by (simp only: BigNumber_literal_def BigNumber_string_MAX toString_MAX sum.case)

lemma lead_exp_large:
  assumes "0 < m" "0 \<le> k" "MAX_EXP < lead_exp m k"
  shows "9223372036854775807 < int m * 10 ^ nat k"
proof -
  let ?len = "length (str_of_nat m)"
  have len: "0 < ?len" using str_of_nat_nonempty [of m] by simp
  have "(10::nat) ^ (?len - 1) \<le> m" using assms(1) by (rule length_str_of_nat_lower)
  then have "(10::nat) ^ (?len - 1) * 10 ^ nat k \<le> m * 10 ^ nat k" by simp
  then have le: "(10::nat) ^ (?len - 1 + nat k) \<le> m * 10 ^ nat k" by (simp add: power_add)
  from assms len have "19 \<le> ?len - 1 + nat k" by (simp add: lead_exp_def MAX_EXP_def)
  then have "(10::nat) ^ 19 \<le> 10 ^ (?len - 1 + nat k)" by (intro power_increasing) simp_all
  with le have "(10::nat) ^ 19 \<le> m * 10 ^ nat k" by linarith
  then have "int ((10::nat) ^ 19) \<le> int (m * 10 ^ nat k)" by (simp only: of_nat_le_iff)
  then show ?thesis by simp
qed

lemma isValidAmount_string_conj:
  "isValidAmount (JString s) z =
     (case BigNumber_string s of
        Inl e \<Rightarrow> False
      | Inr b \<Rightarrow>
          (z \<or> \<not> isZero b) \<and> \<not> isNegative b \<and>
          \<not> greaterThan_bn (times_bn b (BFinite False 1 7)) (BFinite False 9223372036854775807 0) \<and>
          (case decimalPlaces b of None \<Rightarrow> True | Some dp \<Rightarrow> dp \<le> 7) \<and> isFinite b \<and> \<not> isNaN b)"
  by (auto simp: isValidAmount_def BigNumber_nat_ONE MAX_bn split: sum.splits option.splits)

lemma finite_valid:
  assumes "normal_bn (BFinite neg m k)"
  shows "((z \<or> m \<noteq> 0) \<and> \<not> neg \<and>
          \<not> greaterThan_bn (times_bn (BFinite neg m k) (BFinite False 1 7)) (BFinite False 9223372036854775807 0) \<and>
          nat (- k) \<le> 7) =
         (\<not> neg \<and> (z \<or> m \<noteq> 0) \<and> - 7 \<le> k \<and> int m * 10 ^ nat (k + 7) \<le> 9223372036854775807)"
proof (cases "m = 0")
  case True
  with assms show ?thesis
    by (auto simp: BN_make_def greaterThan_bn_def scaled_int_def order_int_def)
next
  case False
  with assms have nd: "\<not> 10 dvd m" and pos: "0 < m" by simp_all
  show ?thesis
  proof (cases "- 7 \<le> k")
    case k: True
    have le7: "lead_exp m (k + 7) = lead_exp m k + 7" by (simp add: lead_exp_def)
    have lo: "- MAX_EXP \<le> lead_exp m (k + 7)" using k by (simp add: lead_exp_def MAX_EXP_def)
    show ?thesis
    proof (cases "MAX_EXP < lead_exp m (k + 7)")
      case True
      then have "times_bn (BFinite neg m k) (BFinite False 1 7) = BInfinity neg"
        using pos nd by (simp add: BN_make_def strip_zeros_id)
      moreover have "9223372036854775807 < int m * 10 ^ nat (k + 7)"
        using pos k True by (intro lead_exp_large) simp_all
      ultimately show ?thesis by (auto simp: greaterThan_bn_def)
    next
      case False
      then have "times_bn (BFinite neg m k) (BFinite False 1 7) = BFinite neg m (k + 7)"
        using pos nd lo by (simp add: BN_make_id)
      then show ?thesis using k
        by (auto simp: greaterThan_bn_def scaled_int_def order_int_def)
    qed
  next
    case False
    then show ?thesis by auto
  qed
qed

lemma isValidAmount_string:
  "isValidAmount (JString s) z =
     (\<exists>m k. BigNumber_string s = Inr (BFinite False m k) \<and> (z \<or> m \<noteq> 0) \<and> - 7 \<le> k \<and>
        int m * 10 ^ nat (k + 7) \<le> 9223372036854775807)"
proof (cases "BigNumber_string s")
  case (Inl e)
  then show ?thesis by (simp add: isValidAmount_string_conj)
next
  case (Inr b)
  then have nb: "normal_bn b" by (rule BigNumber_string_normal)
  show ?thesis
  proof (cases b)
    case BNaN
    with Inr show ?thesis by (simp add: isValidAmount_string_conj)
  next
    case (BInfinity neg)
    with Inr show ?thesis by (simp add: isValidAmount_string_conj greaterThan_bn_def)
  next
    case (BFinite neg m k)
    with nb have "normal_bn (BFinite neg m k)" by simp
    from finite_valid [OF this, of z] Inr BFinite show ?thesis
      by (auto simp: isValidAmount_string_conj)
  qed
qed

section \<open>Valid amounts\<close>





lemmas eval_digits = is_digit_def digit_val_def digit_char_def nat_of_str_def str_of_int_def
  str_of_nat.simps strip_zeros.simps

lemmas eval_parse = eval_digits MAX_EXP_def lead_exp_def BN_make_def split_sign_def
  split_fraction_def parse_decimal_def BigNumber_string_def



lemma parse_zero: "BigNumber_string ''0'' = Inr (BFinite False 0 0)"
  by (simp add: eval_parse)


lemma parse_minus_one: "BigNumber_string ''-1'' = Inr (BFinite True 1 0)"
  by (simp add: eval_parse)



lemma valid_zero: "isValidAmount (JString ''0'') True"
  by (simp add: isValidAmount_string parse_zero)

lemma invalid_minus_one: "\<not> isValidAmount (JString ''-1'') z"
  by (simp add: isValidAmount_string parse_minus_one)


section \<open>Scaling and unscaling\<close>

lemma digit_not_minus: "is_digit c \<Longrightarrow> c \<noteq> CHR ''-''"
  by (auto simp: is_digit_def)

lemma split_sign_digits: "ds \<noteq> [] \<Longrightarrow> list_all is_digit ds \<Longrightarrow> split_sign ds = (False, ds)"
  by (cases ds) (auto simp: split_sign_def dest: digit_not_minus)





lemma Hyper_fromString_of_nat: "Hyper_fromString (str_of_nat n) = Inr (word_of_nat n)"
  by (simp add: Hyper_fromString_def split_sign_digits str_of_nat_nonempty str_of_nat_digits
      nat_of_str_of_nat)



lemma small_lead_exp:
  assumes "0 < m" "0 \<le> k" "int m * 10 ^ nat k \<le> 9223372036854775807"
  shows "lead_exp m k \<le> 18"
proof (rule ccontr)
  assume "\<not> lead_exp m k \<le> 18"
  then have big: "19 \<le> lead_exp m k" by simp
  let ?len = "length (str_of_nat m)"
  have len: "0 < ?len" using str_of_nat_nonempty [of m] by simp
  have "(10::nat) ^ (?len - 1) \<le> m" using assms(1) by (rule length_str_of_nat_lower)
  then have "(10::nat) ^ (?len - 1) * 10 ^ nat k \<le> m * 10 ^ nat k" by simp
  then have le: "(10::nat) ^ (?len - 1 + nat k) \<le> m * 10 ^ nat k" by (simp add: power_add)
  from big assms(2) len have "19 \<le> ?len - 1 + nat k" by (simp add: lead_exp_def)
  then have "(10::nat) ^ 19 \<le> 10 ^ (?len - 1 + nat k)" by (intro power_increasing) simp_all
  with le have "(10::nat) ^ 19 \<le> m * 10 ^ nat k" by linarith
  then have "int ((10::nat) ^ 19) \<le> int (m * 10 ^ nat k)" by (simp only: of_nat_le_iff)
  with assms(3) show False by simp
qed

text \<open>A valid amount, scaled: the product prints as the digits of an integer.\<close>

lemma times_ONE_valid:
  assumes "normal_bn (BFinite False m k)" "- 7 \<le> k" "int m * 10 ^ nat (k + 7) \<le> 9223372036854775807"
  shows "times_bn (BFinite False m k) (BigNumber_nat ONE) = BN_make False (m * 10 ^ nat (k + 7)) 0"
    and "BN_make False (m * 10 ^ nat (k + 7)) 0 = (if m = 0 then BFinite False 0 0 else BFinite False m (k + 7))"
    and "toString (BN_make False (m * 10 ^ nat (k + 7)) 0) = str_of_nat (m * 10 ^ nat (k + 7))"
proof -
  let ?N = "m * 10 ^ nat (k + 7)"
  show mk: "BN_make False ?N 0 = (if m = 0 then BFinite False 0 0 else BFinite False m (k + 7))"
  proof (cases "m = 0")
    case True
    then show ?thesis by (simp add: BN_make_zero)
  next
    case False
    with assms have nd: "\<not> 10 dvd m" and pos: "0 < m" by simp_all
    have le: "lead_exp m (k + 7) \<le> 18" using pos assms by (intro small_lead_exp) simp_all
    have ge: "0 \<le> lead_exp m (k + 7)"
      using assms(2) str_of_nat_nonempty [of m] by (cases "str_of_nat m") (simp_all add: lead_exp_def)
    have "strip_zeros ?N 0 = (m, k + 7)"
      using pos nd assms(2) by (simp add: strip_zeros_pow10 strip_zeros_id)
    with False pos le ge show ?thesis by (simp add: BN_make_def MAX_EXP_def)
  qed
  show "times_bn (BFinite False m k) (BigNumber_nat ONE) = BN_make False ?N 0"
  proof (cases "m = 0")
    case True
    then show ?thesis by (simp add: BigNumber_nat_ONE BN_make_zero)
  next
    case False
    with assms have nd: "\<not> 10 dvd m" and pos: "0 < m" by simp_all
    have le: "lead_exp m (k + 7) \<le> 18" using pos assms by (intro small_lead_exp) simp_all
    have ge: "0 \<le> lead_exp m (k + 7)"
      using assms(2) str_of_nat_nonempty [of m] by (cases "str_of_nat m") (simp_all add: lead_exp_def)
    have "BN_make False m (k + 7) = BFinite False m (k + 7)"
      using pos nd le ge by (intro BN_make_id) (simp_all add: MAX_EXP_def)
    with False mk show ?thesis by (simp add: BigNumber_nat_ONE)
  qed
  show "toString (BN_make False ?N 0) = str_of_nat ?N"
  proof (cases "m = 0")
    case True
    then show ?thesis by (simp add: BN_make_zero str_of_nat.simps digit_char_def)
  next
    case False
    with assms have pos: "0 < m" by simp
    have le: "lead_exp m (k + 7) \<le> 18" using pos assms by (intro small_lead_exp) simp_all
    have ge: "0 \<le> lead_exp m (k + 7)"
      using assms(2) str_of_nat_nonempty [of m] by (cases "str_of_nat m") (simp_all add: lead_exp_def)
    have "toFixedPoint (str_of_nat m) (lead_exp m (k + 7)) = str_of_nat m @ replicate (nat (k + 7)) CHR ''0''"
      using assms(2) ge by (auto simp: toFixedPoint_def lead_exp_def nat_add_distrib)
    also have "\<dots> = str_of_nat ?N" using pos by (simp add: str_of_nat_pow10)
    finally show ?thesis using False le ge mk by (simp add: TO_EXP_NEG_def TO_EXP_POS_def)
  qed
qed






lemma toXDRAmount_scaled:
  assumes "BigNumber_string s = Inr (BFinite False m k)" "- 7 \<le> k"
    "int m * 10 ^ nat (k + 7) \<le> 9223372036854775807"
  shows "toXDRAmount (JString s) = Inr (word_of_nat (m * 10 ^ nat (k + 7)))"
proof -
  from assms(1) have n: "normal_bn (BFinite False m k)" by (rule BigNumber_string_normal)
  show ?thesis
    by (simp add: toXDRAmount_def assms(1) times_ONE_valid(1,3) [OF n assms(2,3)]
        Hyper_fromString_of_nat del: times_bn.simps toString.simps)
qed
















section \<open>Facts about prices\<close>

lemma toXDRPrice_object:
  "toXDRPrice approximate (PriceObject pn pd) =
     (if pn \<noteq> 0 \<and> pd \<noteq> 0
      then (if pn < 0 \<or> pd < 0 then Inl (Error ''price must be positive'') else Inr (Price pn pd))
      else Inl (Error ''new BigNumber() not a number''))"
  by (simp add: toXDRPrice_def)

lemma toXDRPrice_nonneg:
  "toXDRPrice approximate p = Inr x \<Longrightarrow> 0 \<le> price_n x \<and> 0 \<le> price_d x"
  by (auto simp: toXDRPrice_def split: sum.splits if_splits price_arg.splits prod.splits)

lemma toXDRPrice_value_result:
  "toXDRPrice approximate (PriceValue v) = Inr x \<Longrightarrow>
     \<exists>b. approximate b = Inr (price_n x, price_d x)"
  by (auto simp: toXDRPrice_def split: sum.splits if_splits prod.splits)

lemma example_best_r_nonzero: "example_best_r b = Inr (a0, a1) \<Longrightarrow> a0 \<noteq> 0 \<and> a1 \<noteq> 0"
  by (cases b) (auto split: if_splits)

lemma parse_five: "BigNumber_string ''5'' = Inr (BFinite False 5 0)"
  by (simp add: eval_parse)

lemma price_five: "toXDRPrice example_best_r (PriceValue (JString ''5'')) = Inr (Price 5 1)"
  by (simp add: toXDRPrice_def parse_five)

section \<open>Asset codes\<close>






section \<open>Trust limits\<close>

lemma MAX_INT64_digits: "MAX_INT64 = str_of_nat 9223372036854775807"
  by (simp add: MAX_INT64_def str_of_nat.simps digit_char_def)

lemma default_limit:
  "Hyper_fromString (toString (BigNumber_literal MAX_INT64)) = Inr 9223372036854775807"
proof -
  have "toString (BigNumber_literal MAX_INT64) = MAX_INT64"
    by (simp only: BigNumber_literal_def BigNumber_string_MAX toString_MAX sum.case)
  then show ?thesis by (simp add: MAX_INT64_digits Hyper_fromString_of_nat)
qed

lemma toXDRAmount_zero: "toXDRAmount (JString ''0'') = Inr 0"
  using toXDRAmount_scaled [OF parse_zero] by simp

section \<open>Weights and thresholds\<close>

lemma out_of_range_iff: "out_of_range w = (\<not> in_range_255 w)"
  by (auto simp: out_of_range_def in_range_255_def split: option.splits)

text \<open>The two steps of \<^verbatim>\<open>setOptions\<close> that read the inflation destination and the signer.\<close>

lemma signer_step_out_of_range:
  assumes "\<not> in_range_255 (signer_weight opts)"
  shows "\<exists>e. (case signer opts of
                 None \<Rightarrow> Inr None
               | Some (SignerOpts address weight) \<Rightarrow>
                   and_then (checkAccountId C address ''signer.address is invalid'') (\<lambda>k.
                   if out_of_range weight
                   then Inl (Error ''signer.weight value must be between 0 and 255'')
                   else Inr (Some (XdrSigner k weight)))) = Inl e"
  using assms
  by (auto simp: signer_weight_def in_range_255_def out_of_range_def and_then_def
      split: option.splits signer_opts.splits sum.splits)

lemma signer_step_accepts:
  assumes "in_range_255 (signer_weight opts)"
    and "signer opts = None \<or>
      \<not> isl (checkAccountId C (signer_address opts) ''signer.address is invalid'')"
  shows "\<exists>g. (case signer opts of
                 None \<Rightarrow> Inr None
               | Some (SignerOpts address weight) \<Rightarrow>
                   and_then (checkAccountId C address ''signer.address is invalid'') (\<lambda>k.
                   if out_of_range weight
                   then Inl (Error ''signer.weight value must be between 0 and 255'')
                   else Inr (Some (XdrSigner k weight)))) =
        Inr (map_option (\<lambda>k. XdrSigner k (signer_weight opts)) g)"
proof (cases "signer opts")
  case None
  then have "(case signer opts of
                 None \<Rightarrow> Inr None
               | Some (SignerOpts address weight) \<Rightarrow>
                   and_then (checkAccountId C address ''signer.address is invalid'') (\<lambda>k.
                   if out_of_range weight
                   then Inl (Error ''signer.weight value must be between 0 and 255'')
                   else Inr (Some (XdrSigner k weight)))) =
        Inr (map_option (\<lambda>k. XdrSigner k (signer_weight opts)) None)" by simp
  then show ?thesis by blast
next
  case (Some so)
  obtain address weight where so: "so = SignerOpts address weight" by (cases so)
  with Some assms(2) obtain k where k: "checkAccountId C address ''signer.address is invalid'' = Inr k"
    by (cases "checkAccountId C address ''signer.address is invalid''")
      (simp_all add: signer_address_def)
  from assms(1) Some so have "\<not> out_of_range weight"
    by (simp add: out_of_range_iff signer_weight_def)
  with Some so k have "(case signer opts of
                 None \<Rightarrow> Inr None
               | Some (SignerOpts address weight) \<Rightarrow>
                   and_then (checkAccountId C address ''signer.address is invalid'') (\<lambda>k.
                   if out_of_range weight
                   then Inl (Error ''signer.weight value must be between 0 and 255'')
                   else Inr (Some (XdrSigner k weight)))) =
        Inr (map_option (\<lambda>k. XdrSigner k (signer_weight opts)) (Some k))"
    by (simp add: and_then_def signer_weight_def)
  then show ?thesis by blast
qed

lemma setOptions_out_of_range:
  assumes "\<not> in_range_255 (masterWeight opts) \<or> \<not> in_range_255 (lowThreshold opts) \<or>
     \<not> in_range_255 (medThreshold opts) \<or> \<not> in_range_255 (highThreshold opts) \<or>
     \<not> in_range_255 (signer_weight opts)"
  shows "isl (setOptions C opts)"
proof (cases "in_range_255 (signer_weight opts)")
  case True
  with assms have "out_of_range (masterWeight opts) \<or> out_of_range (lowThreshold opts) \<or>
     out_of_range (medThreshold opts) \<or> out_of_range (highThreshold opts)"
    by (simp add: out_of_range_iff)
  then show ?thesis
    unfolding setOptions_def and_then_def by (auto split: sum.splits)
next
  case False
  from signer_step_out_of_range [OF this, of C] obtain e where "(case signer opts of
                 None \<Rightarrow> Inr None
               | Some (SignerOpts address weight) \<Rightarrow>
                   and_then (checkAccountId C address ''signer.address is invalid'') (\<lambda>k.
                   if out_of_range weight
                   then Inl (Error ''signer.weight value must be between 0 and 255'')
                   else Inr (Some (XdrSigner k weight)))) = Inl e" by blast
  then show ?thesis
    unfolding setOptions_def by (simp add: and_then_def split: sum.splits)
qed

lemma setOptions_accepts:
  assumes w: "in_range_255 (masterWeight opts)" "in_range_255 (lowThreshold opts)"
      "in_range_255 (medThreshold opts)" "in_range_255 (highThreshold opts)"
      "in_range_255 (signer_weight opts)"
    and dst: "\<not> truthy_str (inflationDest opts) \<or>
      \<not> isl (checkAccountId C (inflationDest opts) ''inflationDest is invalid'')"
    and dom: "isUndefined (homeDomain opts) \<or> isString (homeDomain opts)"
    and sg: "signer opts = None \<or>
      \<not> isl (checkAccountId C (signer_address opts) ''signer.address is invalid'')"
    and src: "\<not> isl (setSourceAccount C opts)"
  shows "\<exists>src dst dom sg.
      setOptions C opts =
        Inr (Operation src (SetOptionBody dst (clearFlags opts) (setFlags opts)
          (masterWeight opts) (lowThreshold opts) (medThreshold opts) (highThreshold opts) dom
          (map_option (\<lambda>k. XdrSigner k (signer_weight opts)) sg)))"
proof -
  from src obtain s where s: "setSourceAccount C opts = Inr s"
    by (cases "setSourceAccount C opts") simp_all
  have "\<exists>d. (if truthy_str (inflationDest opts)
               then and_then (checkAccountId C (inflationDest opts) ''inflationDest is invalid'')
                      (\<lambda>k. Inr (Some k))
               else Inr None) = Inr d"
    using dst by (cases "checkAccountId C (inflationDest opts) ''inflationDest is invalid''")
      (auto simp: and_then_def)
  then obtain d where d: "(if truthy_str (inflationDest opts)
               then and_then (checkAccountId C (inflationDest opts) ''inflationDest is invalid'')
                      (\<lambda>k. Inr (Some k))
               else Inr None) = Inr d" by blast
  from signer_step_accepts [OF w(5) sg] obtain g where g: "(case signer opts of
                 None \<Rightarrow> Inr None
               | Some (SignerOpts address weight) \<Rightarrow>
                   and_then (checkAccountId C address ''signer.address is invalid'') (\<lambda>k.
                   if out_of_range weight
                   then Inl (Error ''signer.weight value must be between 0 and 255'')
                   else Inr (Some (XdrSigner k weight)))) =
        Inr (map_option (\<lambda>k. XdrSigner k (signer_weight opts)) g)" by blast
  from w(1-4) have r: "\<not> out_of_range (masterWeight opts)" "\<not> out_of_range (lowThreshold opts)"
    "\<not> out_of_range (medThreshold opts)" "\<not> out_of_range (highThreshold opts)"
    by (simp_all add: out_of_range_iff)
  from dom have "\<not> (\<not> isUndefined (homeDomain opts) \<and> \<not> isString (homeDomain opts))" by blast
  then have "setOptions C opts =
        Inr (Operation s (SetOptionBody d (clearFlags opts) (setFlags opts) (masterWeight opts)
          (lowThreshold opts) (medThreshold opts) (highThreshold opts)
          (case homeDomain opts of JString s \<Rightarrow> Some s | _ \<Rightarrow> None)
          (map_option (\<lambda>k. XdrSigner k (signer_weight opts)) g)))"
    unfolding setOptions_def d g s using r by (simp add: and_then_def)
  then show ?thesis by blast
qed

lemma setOptions_256:
  "setOptions C (empty_opts \<lparr> masterWeight := Some 256 \<rparr>) =
     Inl (Error ''masterWeight value must be between 0 and 255'')"
  by (simp add: setOptions_def empty_opts_def and_then_def truthy_str_def out_of_range_def)

lemma setOptions_255:
  "setOptions C (empty_opts \<lparr> masterWeight := Some 255 \<rparr>) =
     Inr (Operation None (SetOptionBody None None None (Some 255) None None None None None))"
  by (simp add: setOptions_def empty_opts_def and_then_def truthy_str_def out_of_range_def
      setSourceAccount_def)

section \<open>Offers\<close>











section \<open>Decoding what a constructor built\<close>
















section \<open>The example collaborators\<close>









section \<open>The claims\<close>









text \<open>
  Claim C4. \<^verbatim>\<open>_toXDRPrice\<close> throws unless the numerator and the denominator it arrives at are
  both strictly positive. This holds for every explicit pair; for every other price it
  holds provided that the approximation never returns a zero numerator or denominator
  (the approximation throws when it finds none). The pair \<^verbatim>\<open>{n: -1, d: 2}\<close> fails with
  \<^verbatim>\<open>"price must be positive"\<close>.
\<close>

theorem price_positive:
  "(toXDRPrice approximate (PriceObject pn pd) = Inr x \<longrightarrow> 0 < price_n x \<and> 0 < price_d x) \<and>
   (never_zero approximate \<longrightarrow>
      toXDRPrice approximate p = Inr x \<longrightarrow> 0 < price_n x \<and> 0 < price_d x) \<and>
   toXDRPrice approximate (PriceObject (- 1) 2) = Inl (Error ''price must be positive'')"
proof (intro conjI impI)
  assume "toXDRPrice approximate (PriceObject pn pd) = Inr x"
  then show "0 < price_n x" "0 < price_d x"
    by (auto simp: toXDRPrice_object split: if_splits)
next
  assume "never_zero approximate"
    and r: "toXDRPrice approximate p = Inr x"
  then have nz: "\<forall>b a0 a1. approximate b = Inr (a0, a1) \<longrightarrow> a0 \<noteq> 0 \<and> a1 \<noteq> 0"
    by (simp add: never_zero_def)
  from r have nonneg: "0 \<le> price_n x \<and> 0 \<le> price_d x" by (rule toXDRPrice_nonneg)
  have "price_n x \<noteq> 0 \<and> price_d x \<noteq> 0"
  proof (cases p)
    case (PriceObject pn pd)
    with r show ?thesis by (auto simp: toXDRPrice_object split: if_splits)
  next
    case (PriceValue v)
    with r obtain b where "approximate b = Inr (price_n x, price_d x)"
      by (auto dest: toXDRPrice_value_result)
    with nz show ?thesis by blast
  qed
  with nonneg show "0 < price_n x" "0 < price_d x" by simp_all
next
  show "toXDRPrice approximate (PriceObject (- 1) 2) = Inl (Error ''price must be positive'')"
    by (simp add: toXDRPrice_object)
qed

theorem price_positive_witness:
  "toXDRPrice example_best_r (PriceObject 1 2) = Inr (Price 1 2) \<and>
   (0::int) < price_n (Price 1 2) \<and> (0::int) < price_d (Price 1 2) \<and>
   toXDRPrice example_best_r (PriceValue (JString ''5'')) = Inr (Price 5 1) \<and>
   (0::int) < price_n (Price 5 1) \<and> (0::int) < price_d (Price 5 1)"
proof -
  have o: "toXDRPrice example_best_r (PriceObject 1 2) = Inr (Price 1 2)"
    by (simp add: toXDRPrice_object)
  have nz: "never_zero example_best_r"
    unfolding never_zero_def using example_best_r_nonzero by blast
  from price_positive [of example_best_r 1 2 "Price 1 2"] o
  have "(0::int) < price_n (Price 1 2) \<and> (0::int) < price_d (Price 1 2)" by blast
  moreover from price_positive [of example_best_r _ _ "Price 5 1" "PriceValue (JString ''5'')"]
    nz price_five
  have "(0::int) < price_n (Price 5 1) \<and> (0::int) < price_d (Price 5 1)" by blast
  ultimately show ?thesis using o price_five by blast
qed



text \<open>
  Claim C6. In \<^verbatim>\<open>changeTrust\<close>, when the limit is omitted the encoded limit is the largest
  signed 64-bit value, 9223372036854775807; a limit that is given and is not a valid
  amount (zero allowed) makes the constructor throw; and the limit \<^verbatim>\<open>"0"\<close> is accepted and
  encoded as zero.
\<close>

theorem changeTrust_limit:
  "(limit opts = JUndefined \<longrightarrow> asset opts = Some a \<longrightarrow> setSourceAccount C opts = Inr src \<longrightarrow>
      changeTrust C opts =
        Inr (Operation src (ChangeTrustBody (Asset_toXdrObject C a) 9223372036854775807)) \<and>
      sint (9223372036854775807 :: 64 word) = 2 ^ 63 - 1) \<and>
   (limit opts \<noteq> JUndefined \<longrightarrow> \<not> isValidAmount (limit opts) True \<longrightarrow> asset opts = Some a \<longrightarrow>
      changeTrust C opts =
        Inl (TypeError ''limit argument must be of type String and represent a number'')) \<and>
   (limit opts = JString ''0'' \<longrightarrow> asset opts = Some a \<longrightarrow> setSourceAccount C opts = Inr src \<longrightarrow>
      changeTrust C opts = Inr (Operation src (ChangeTrustBody (Asset_toXdrObject C a) 0)))"
proof (intro conjI impI)
  assume "limit opts = JUndefined" "asset opts = Some a" "setSourceAccount C opts = Inr src"
  then show "changeTrust C opts =
      Inr (Operation src (ChangeTrustBody (Asset_toXdrObject C a) 9223372036854775807))"
    by (simp add: changeTrust_def and_then_def toXdrObject_def default_limit)
  show "sint (9223372036854775807 :: 64 word) = 2 ^ 63 - 1" by simp
next
  assume "limit opts \<noteq> JUndefined" "\<not> isValidAmount (limit opts) True" "asset opts = Some a"
  then show "changeTrust C opts =
      Inl (TypeError ''limit argument must be of type String and represent a number'')"
    by (cases "limit opts") (simp_all add: changeTrust_def and_then_def toXdrObject_def)
next
  assume "limit opts = JString ''0''" "asset opts = Some a" "setSourceAccount C opts = Inr src"
  then show "changeTrust C opts = Inr (Operation src (ChangeTrustBody (Asset_toXdrObject C a) 0))"
    by (simp add: changeTrust_def and_then_def toXdrObject_def valid_zero toXDRAmount_zero)
qed

theorem changeTrust_limit_witness:
  "changeTrust example_deps (empty_opts \<lparr> asset := Some ''USD'' \<rparr>) =
     Inr (Operation None (ChangeTrustBody ''USD'' 9223372036854775807)) \<and>
   changeTrust example_deps (empty_opts \<lparr> asset := Some ''USD'', limit := JString ''-1'' \<rparr>) =
     Inl (TypeError ''limit argument must be of type String and represent a number'') \<and>
   changeTrust example_deps (empty_opts \<lparr> asset := Some ''USD'', limit := JString ''0'' \<rparr>) =
     Inr (Operation None (ChangeTrustBody ''USD'' 0))"
proof -
  let ?o1 = "empty_opts \<lparr> asset := Some ''USD'' \<rparr> :: string opts"
  let ?o2 = "empty_opts \<lparr> asset := Some ''USD'', limit := JString ''-1'' \<rparr> :: string opts"
  let ?o3 = "empty_opts \<lparr> asset := Some ''USD'', limit := JString ''0'' \<rparr> :: string opts"
  have s: "setSourceAccount example_deps ?o1 = Inr None" "setSourceAccount example_deps ?o3 = Inr None"
    by (simp_all add: setSourceAccount_def empty_opts_def truthy_str_def)
  have l1: "limit ?o1 = JUndefined" by (simp add: empty_opts_def)
  have x: "Asset_toXdrObject example_deps ''USD'' = ''USD''" by (simp add: example_deps_def)
  from changeTrust_limit [of ?o1 "''USD''" example_deps None] s(1) l1
  have "changeTrust example_deps ?o1 = Inr (Operation None (ChangeTrustBody ''USD'' 9223372036854775807))"
    by (simp add: x)
  moreover from changeTrust_limit [of ?o2 "''USD''" example_deps None] invalid_minus_one [of True]
  have "changeTrust example_deps ?o2 =
     Inl (TypeError ''limit argument must be of type String and represent a number'')"
    by simp
  moreover from changeTrust_limit [of ?o3 "''USD''" example_deps None] s(2)
  have "changeTrust example_deps ?o3 = Inr (Operation None (ChangeTrustBody ''USD'' 0))"
    by (simp add: x)
  ultimately show ?thesis by blast
qed

text \<open>
  Claim C7. \<^verbatim>\<open>setOptions\<close> throws whenever one of \<^verbatim>\<open>masterWeight\<close>, \<^verbatim>\<open>lowThreshold\<close>,
  \<^verbatim>\<open>medThreshold\<close>, \<^verbatim>\<open>highThreshold\<close> and \<^verbatim>\<open>signer.weight\<close> is given and lies outside 0 to 255.
  When each of them is absent or within 0 to 255 and the checks of the other fields pass
  (inflation destination, home domain, signer address, source account), \<^verbatim>\<open>setOptions\<close>
  returns an operation that carries the weights and thresholds as given. A master weight
  of 256 is rejected and one of 255 is accepted.
\<close>

theorem setOptions_weight_range:
  "(\<not> in_range_255 (masterWeight opts) \<or> \<not> in_range_255 (lowThreshold opts) \<or>
    \<not> in_range_255 (medThreshold opts) \<or> \<not> in_range_255 (highThreshold opts) \<or>
    \<not> in_range_255 (signer_weight opts) \<longrightarrow> isl (setOptions C opts)) \<and>
   (in_range_255 (masterWeight opts) \<and> in_range_255 (lowThreshold opts) \<and>
    in_range_255 (medThreshold opts) \<and> in_range_255 (highThreshold opts) \<and>
    in_range_255 (signer_weight opts) \<longrightarrow>
    (\<not> truthy_str (inflationDest opts) \<or>
      \<not> isl (checkAccountId C (inflationDest opts) ''inflationDest is invalid'')) \<longrightarrow>
    (isUndefined (homeDomain opts) \<or> isString (homeDomain opts)) \<longrightarrow>
    (signer opts = None \<or>
      \<not> isl (checkAccountId C (signer_address opts) ''signer.address is invalid'')) \<longrightarrow>
    \<not> isl (setSourceAccount C opts) \<longrightarrow>
    (\<exists>src dst dom sg.
      setOptions C opts =
        Inr (Operation src (SetOptionBody dst (clearFlags opts) (setFlags opts)
          (masterWeight opts) (lowThreshold opts) (medThreshold opts) (highThreshold opts) dom
          (map_option (\<lambda>k. XdrSigner k (signer_weight opts)) sg))))) \<and>
   setOptions C (empty_opts \<lparr> masterWeight := Some 256 \<rparr>) =
     Inl (Error ''masterWeight value must be between 0 and 255'') \<and>
   setOptions C (empty_opts \<lparr> masterWeight := Some 255 \<rparr>) =
     Inr (Operation None (SetOptionBody None None None (Some 255) None None None None None))"
proof (intro conjI impI)
  assume "\<not> in_range_255 (masterWeight opts) \<or> \<not> in_range_255 (lowThreshold opts) \<or>
    \<not> in_range_255 (medThreshold opts) \<or> \<not> in_range_255 (highThreshold opts) \<or>
    \<not> in_range_255 (signer_weight opts)"
  then show "isl (setOptions C opts)" by (rule setOptions_out_of_range)
next
  assume "in_range_255 (masterWeight opts) \<and> in_range_255 (lowThreshold opts) \<and>
    in_range_255 (medThreshold opts) \<and> in_range_255 (highThreshold opts) \<and>
    in_range_255 (signer_weight opts)"
    and "\<not> truthy_str (inflationDest opts) \<or>
      \<not> isl (checkAccountId C (inflationDest opts) ''inflationDest is invalid'')"
    and "isUndefined (homeDomain opts) \<or> isString (homeDomain opts)"
    and "signer opts = None \<or>
      \<not> isl (checkAccountId C (signer_address opts) ''signer.address is invalid'')"
    and "\<not> isl (setSourceAccount C opts)"
  then show "\<exists>src dst dom sg.
      setOptions C opts =
        Inr (Operation src (SetOptionBody dst (clearFlags opts) (setFlags opts)
          (masterWeight opts) (lowThreshold opts) (medThreshold opts) (highThreshold opts) dom
          (map_option (\<lambda>k. XdrSigner k (signer_weight opts)) sg)))"
    by (intro setOptions_accepts) simp_all
next
  show "setOptions C (empty_opts \<lparr> masterWeight := Some 256 \<rparr>) =
     Inl (Error ''masterWeight value must be between 0 and 255'')" by (rule setOptions_256)
  show "setOptions C (empty_opts \<lparr> masterWeight := Some 255 \<rparr>) =
     Inr (Operation None (SetOptionBody None None None (Some 255) None None None None None))"
    by (rule setOptions_255)
qed

theorem setOptions_weight_range_witness:
  "isl (setOptions example_deps
     (empty_opts \<lparr> lowThreshold := Some (- 1), signer := Some (SignerOpts (Some ''GABC'') (Some 1)) \<rparr>)) \<and>
   (\<exists>src dst dom sg.
      setOptions example_deps
        (empty_opts \<lparr> masterWeight := Some 255, highThreshold := Some 0,
           signer := Some (SignerOpts (Some ''GABC'') (Some 1)) \<rparr>) =
        Inr (Operation src (SetOptionBody dst None None (Some 255) None None (Some 0) dom
          (map_option (\<lambda>k. XdrSigner k (Some 1)) sg))))"
proof -
  let ?o1 = "empty_opts \<lparr> lowThreshold := Some (- 1),
    signer := Some (SignerOpts (Some ''GABC'') (Some 1)) \<rparr> :: string opts"
  let ?o2 = "empty_opts \<lparr> masterWeight := Some 255, highThreshold := Some 0,
    signer := Some (SignerOpts (Some ''GABC'') (Some 1)) \<rparr> :: string opts"
  have "\<not> in_range_255 (lowThreshold ?o1)" by (simp add: in_range_255_def)
  with setOptions_weight_range [of ?o1 example_deps]
  have a: "isl (setOptions example_deps ?o1)" by blast
  have r: "in_range_255 (masterWeight ?o2) \<and> in_range_255 (lowThreshold ?o2) \<and>
    in_range_255 (medThreshold ?o2) \<and> in_range_255 (highThreshold ?o2) \<and>
    in_range_255 (signer_weight ?o2)"
    by (simp add: in_range_255_def signer_weight_def empty_opts_def)
  have d: "\<not> truthy_str (inflationDest ?o2)" by (simp add: truthy_str_def empty_opts_def)
  have h: "isUndefined (homeDomain ?o2)" by (simp add: empty_opts_def)
  have g: "\<not> isl (checkAccountId example_deps (signer_address ?o2) ''signer.address is invalid'')"
    by (simp add: signer_address_def checkAccountId_def example_deps_def)
  have s: "\<not> isl (setSourceAccount example_deps ?o2)"
    by (simp add: setSourceAccount_def truthy_str_def empty_opts_def)
  from setOptions_weight_range [of ?o2 example_deps] r d h g s
  have "\<exists>src dst dom sg.
      setOptions example_deps ?o2 =
        Inr (Operation src (SetOptionBody dst (clearFlags ?o2) (setFlags ?o2)
          (masterWeight ?o2) (lowThreshold ?o2) (medThreshold ?o2) (highThreshold ?o2) dom
          (map_option (\<lambda>k. XdrSigner k (signer_weight ?o2)) sg)))"
    by blast
  then have "\<exists>src dst dom sg.
      setOptions example_deps ?o2 =
        Inr (Operation src (SetOptionBody dst None None (Some 255) None None (Some 0) dom
          (map_option (\<lambda>k. XdrSigner k (Some 1)) sg)))"
    by (simp add: empty_opts_def signer_weight_def)
  with a show ?thesis by blast
qed

text \<open>
  Claim C8. For every operation whose tag is none of the ten names that
  \<^verbatim>\<open>operationToObject\<close> has a case for, \<^verbatim>\<open>operationToObject\<close> throws \<^verbatim>\<open>"Unknown operation"\<close>: it
  returns no object, whether or not the operation has a source account.
\<close>

theorem unknown_operation_throws:
  "switch_name (body operation) \<notin> set known_names \<longrightarrow>
     operationToObject C operation = Inl (Error ''Unknown operation'')"
  by (cases "body operation") (simp_all add: operationToObject_def known_names_def Let_def)

theorem unknown_operation_throws_witness:
  "switch_name (body (Operation (Some ''GABC'') (OtherBody ''manageData'') :: (string, string) operation))
     \<notin> set known_names \<and>
   operationToObject example_deps (Operation (Some ''GABC'') (OtherBody ''manageData'')) =
     Inl (Error ''Unknown operation'')"
proof -
  have "switch_name (body (Operation (Some ''GABC'') (OtherBody ''manageData'') :: (string, string) operation))
      \<notin> set known_names"
    by (simp add: known_names_def)
  with unknown_operation_throws [of "Operation (Some ''GABC'') (OtherBody ''manageData'')" example_deps]
  show ?thesis by blast
qed



text \<open>
  Claim C10. \<^verbatim>\<open>isValidAmount\<close> is false on every value that is not a string, for both settings
  of \<open>allowZero\<close>, so every constructor that takes an amount throws when the amount is not a
  string; \<^verbatim>\<open>changeTrust\<close> does so for a limit that is given.
\<close>

theorem non_string_amount_rejected:
  "\<not> isString v \<longrightarrow>
     \<not> isValidAmount v allowZero \<and>
     isl (createAccount C (opts \<lparr> startingBalance := v \<rparr>)) \<and>
     isl (payment C (opts \<lparr> amount := v \<rparr>)) \<and>
     isl (pathPayment C (opts \<lparr> sendMax := v \<rparr>)) \<and>
     isl (pathPayment C (opts \<lparr> destAmount := v \<rparr>)) \<and>
     isl (manageOffer C (opts \<lparr> amount := v \<rparr>)) \<and>
     isl (createPassiveOffer C (opts \<lparr> amount := v \<rparr>)) \<and>
     (\<not> isUndefined v \<longrightarrow> isl (changeTrust C (opts \<lparr> limit := v \<rparr>)))"
proof (intro impI)
  assume "\<not> isString v"
  then have inv: "\<not> isValidAmount v z" for z
    by (cases v) (simp_all add: isValidAmount_def)
  show "\<not> isValidAmount v allowZero \<and>
     isl (createAccount C (opts \<lparr> startingBalance := v \<rparr>)) \<and>
     isl (payment C (opts \<lparr> amount := v \<rparr>)) \<and>
     isl (pathPayment C (opts \<lparr> sendMax := v \<rparr>)) \<and>
     isl (pathPayment C (opts \<lparr> destAmount := v \<rparr>)) \<and>
     isl (manageOffer C (opts \<lparr> amount := v \<rparr>)) \<and>
     isl (createPassiveOffer C (opts \<lparr> amount := v \<rparr>)) \<and>
     (\<not> isUndefined v \<longrightarrow> isl (changeTrust C (opts \<lparr> limit := v \<rparr>)))"
  proof (intro conjI impI)
    show "\<not> isValidAmount v allowZero" by (rule inv)
    show "isl (createAccount C (opts \<lparr> startingBalance := v \<rparr>))"
      by (simp add: createAccount_def and_then_def inv split: sum.splits)
    show "isl (payment C (opts \<lparr> amount := v \<rparr>))"
      by (simp add: payment_def and_then_def inv split: sum.splits)
    show "isl (pathPayment C (opts \<lparr> sendMax := v \<rparr>))"
      by (simp add: pathPayment_def and_then_def inv split: sum.splits)
    show "isl (pathPayment C (opts \<lparr> destAmount := v \<rparr>))"
      by (simp add: pathPayment_def and_then_def inv split: sum.splits)
    show "isl (manageOffer C (opts \<lparr> amount := v \<rparr>))"
      by (simp add: manageOffer_def and_then_def inv split: sum.splits)
    show "isl (createPassiveOffer C (opts \<lparr> amount := v \<rparr>))"
      by (simp add: createPassiveOffer_def and_then_def inv split: sum.splits)
    show "isl (changeTrust C (opts \<lparr> limit := v \<rparr>))" if "\<not> isUndefined v"
      using that by (simp add: changeTrust_def and_then_def inv split: sum.splits)
  qed
qed

theorem non_string_amount_rejected_witness:
  "\<not> isString (JNumber (BFinite False 5 0)) \<and>
   \<not> isValidAmount (JNumber (BFinite False 5 0)) False \<and>
   isl (createAccount example_deps
     (empty_opts \<lparr> destination := Some ''GABC'', startingBalance := JNumber (BFinite False 5 0) \<rparr>)) \<and>
   isl (changeTrust example_deps
     (empty_opts \<lparr> asset := Some ''USD'', limit := JNumber (BFinite False 5 0) \<rparr>))"
  using non_string_amount_rejected [of "JNumber (BFinite False 5 0)" False example_deps
      "empty_opts \<lparr> destination := Some ''GABC'' \<rparr>"]
    non_string_amount_rejected [of "JNumber (BFinite False 5 0)" False example_deps
      "empty_opts \<lparr> asset := Some ''USD'' \<rparr>"]
  by simp

end
